theory Spec2Isabelle
  imports
    Complex_Main
    "HOL-Library.Char_ord"
    "HOL-Library.List_Lexorder"
    "HOL-Library.Product_Lexorder"
    "HOL-Library.Sublist"
    "HOL-Library.Multiset"
begin

section \<open>JavaScript values\<close>

text \<open>
  The handlers of \<^verbatim>\<open>index.js\<close> receive parsed JSON bodies and documents read back from
  the two stores. A value is one of: \<^verbatim>\<open>undefined\<close> (what reading an absent property
  gives), \<^verbatim>\<open>null\<close>, a boolean, a number (the finite doubles embed in the rationals), a
  string (its UTF-8 bytes, the encoding in which the document store compares strings), a
  point in time, an array, or an object with its properties in insertion order.

  A point in time \<open>JTime ms ns\<close> is the epoch millisecond it falls in and the nanoseconds
  by which it is past that millisecond (fewer than a million). A \<^verbatim>\<open>Date\<close> has whole
  milliseconds only, so the handlers write \<open>JTime ms 0\<close>; the timestamp object that the
  document store gives back for a stored time carries the nanoseconds too.
\<close>

datatype jsval =
    JUndefined
  | JNull
  | JBool bool
  | JNum rat
  | JStr string
  | JTime int nat
  | JArr "jsval list"
  | JObj "(string \<times> jsval) list"

type_synonym obj = "(string \<times> jsval) list"

text \<open>Truthiness, as tested by \<^verbatim>\<open>!x\<close> and \<^verbatim>\<open>x || y\<close>.\<close>

fun truthy :: "jsval \<Rightarrow> bool" where
  "truthy JUndefined = False"
| "truthy JNull = False"
| "truthy (JBool b) = b"
| "truthy (JNum n) = (n \<noteq> 0)"
| "truthy (JStr s) = (s \<noteq> [])"
| "truthy (JTime ms ns) = True"
| "truthy (JArr xs) = True"
| "truthy (JObj fs) = True"

text \<open>\<^verbatim>\<open>a || b\<close>\<close>

definition js_or :: "jsval \<Rightarrow> jsval \<Rightarrow> jsval" where
  "js_or a b = (if truthy a then a else b)"

text \<open>Property read \<^verbatim>\<open>ob.k\<close>: \<^verbatim>\<open>undefined\<close> when the object has no such property.\<close>

definition js_get :: "obj \<Rightarrow> string \<Rightarrow> jsval" where
  "js_get ob k = (case map_of ob k of None \<Rightarrow> JUndefined | Some v \<Rightarrow> v)"

text \<open>Property write: an existing property keeps its place, a new one goes last.\<close>

fun js_set :: "obj \<Rightarrow> string \<Rightarrow> jsval \<Rightarrow> obj" where
  "js_set [] k v = [(k, v)]"
| "js_set ((k', v') # rest) k v =
     (if k' = k then (k, v) # rest else (k', v') # js_set rest k v)"

text \<open>
  \<^verbatim>\<open>{ ...base, ...src }\<close>: the properties of \<open>src\<close> are copied onto \<open>base\<close> in order, a
  property of \<open>src\<close> replacing the one \<open>base\<close> has under the same name.
\<close>

fun spread :: "obj \<Rightarrow> obj \<Rightarrow> obj" where
  "spread base [] = base"
| "spread base ((k, v) # src) = spread (js_set base k v) src"

text \<open>What a \<^verbatim>\<open>catch (error)\<close> block of a handler receives.\<close>

datatype js_error = TypeError | StoreError string

text \<open>
  Built-ins of the JavaScript runtime that the handlers call and that are no part of the
  repository: \<^verbatim>\<open>String.prototype.toLowerCase\<close> and the numeric coercion applied by the
  binary \<^verbatim>\<open>-\<close> (\<open>None\<close> is \<^verbatim>\<open>NaN\<close>). The handlers are parametrised by them.
\<close>

record runtime =
  toLowerCase :: "string \<Rightarrow> string"
  toNumber :: "jsval \<Rightarrow> rat option"

text \<open>
  \<^verbatim>\<open>v.toLowerCase()\<close> on a property value: only a string has the method; on
  \<^verbatim>\<open>undefined\<close>, \<^verbatim>\<open>null\<close> or any other value the call throws a \<^verbatim>\<open>TypeError\<close>.
\<close>

definition lower_of :: "runtime \<Rightarrow> jsval \<Rightarrow> js_error + string" where
  "lower_of R v = (case v of JStr s \<Rightarrow> Inr (toLowerCase R s) | _ \<Rightarrow> Inl TypeError)"

text \<open>\<^verbatim>\<open>hay.includes(needle)\<close>: \<open>needle\<close> occurs in \<open>hay\<close> as a contiguous substring.\<close>

definition str_includes :: "string \<Rightarrow> string \<Rightarrow> bool" where
  "str_includes hay needle = sublist needle hay"

text \<open>
  The \<^verbatim>\<open>Date\<close> of a stored time, in epoch milliseconds: the time rounded to the
  millisecond, which is the millisecond it falls in when it is less than half a
  millisecond past it, and the next one otherwise.
\<close>

definition date_ms :: "int \<Rightarrow> nat \<Rightarrow> int" where
  "date_ms ms ns = (if ns < 500000 then ms else ms + 1)"

text \<open>
  \<^verbatim>\<open>v.toDate()\<close>: only the store's timestamp object has the method; the result is that
  \<^verbatim>\<open>Date\<close>, which the subtraction then reads as its epoch milliseconds.
\<close>

definition toDate :: "jsval \<Rightarrow> js_error + int" where
  "toDate v = (case v of JTime ms ns \<Rightarrow> Inr (date_ms ms ns) | _ \<Rightarrow> Inl TypeError)"

text \<open>
  \<^verbatim>\<open>a === b\<close> on property values: primitives compare by value; two objects read from
  different documents are never the same object.
\<close>

fun strict_eq :: "jsval \<Rightarrow> jsval \<Rightarrow> bool" where
  "strict_eq JUndefined JUndefined = True"
| "strict_eq JNull JNull = True"
| "strict_eq (JBool a) (JBool b) = (a = b)"
| "strict_eq (JNum a) (JNum b) = (a = b)"
| "strict_eq (JStr a) (JStr b) = (a = b)"
| "strict_eq _ _ = False"

text \<open>\<^verbatim>\<open>a - b\<close>: both operands are coerced to numbers; \<^verbatim>\<open>NaN\<close> if either is.\<close>

definition js_minus :: "runtime \<Rightarrow> jsval \<Rightarrow> jsval \<Rightarrow> rat option" where
  "js_minus R a b =
     (case toNumber R a of
        None \<Rightarrow> None
      | Some x \<Rightarrow> (case toNumber R b of None \<Rightarrow> None | Some y \<Rightarrow> Some (x - y)))"

subsection \<open>\<^verbatim>\<open>Array.prototype.sort\<close> with a comparator\<close>

text \<open>
  The sort is stable: it moves \<open>a\<close> behind \<open>b\<close> only when the comparator returns a number
  greater than zero for \<open>(a, b)\<close>; \<^verbatim>\<open>NaN\<close> counts as zero. A comparator that throws ends
  the sort with its error. For a consistent comparator every stable sort returns the same
  array; it is written here as an insertion sort.
\<close>

definition moves_behind :: "rat option \<Rightarrow> bool" where
  "moves_behind r = (case r of None \<Rightarrow> False | Some d \<Rightarrow> d > 0)"

fun js_insert ::
  "('a \<Rightarrow> 'a \<Rightarrow> js_error + rat option) \<Rightarrow> 'a \<Rightarrow> 'a list \<Rightarrow> js_error + 'a list" where
  "js_insert cmp x [] = Inr [x]"
| "js_insert cmp x (y # ys) =
     (case cmp x y of
        Inl e \<Rightarrow> Inl e
      | Inr r \<Rightarrow>
          if moves_behind r
          then (case js_insert cmp x ys of Inl e \<Rightarrow> Inl e | Inr zs \<Rightarrow> Inr (y # zs))
          else Inr (x # y # ys))"

fun js_sort ::
  "('a \<Rightarrow> 'a \<Rightarrow> js_error + rat option) \<Rightarrow> 'a list \<Rightarrow> js_error + 'a list" where
  "js_sort cmp [] = Inr []"
| "js_sort cmp (x # xs) =
     (case js_sort cmp xs of Inl e \<Rightarrow> Inl e | Inr ys \<Rightarrow> js_insert cmp x ys)"

section \<open>The two stores\<close>

text \<open>
  Both stores are reached through client libraries that are no part of the repository.

  The document store holds the collection \<^verbatim>\<open>tasks\<close>: documents under their identifiers.
  Its operations are modelled here from the behaviour the handlers rely on. \<open>fault\<close> is
  the rejection, if any, with which a store client answers the call of the request at
  hand, whatever its cause (network, permissions, validation of the argument).

  What the realtime store keeps of a value written to it, and in which order it
  enumerates the children of a path, is the store's own and is not modelled: a write to
  it is recorded among the calls of the request, and what a read of the path
  \<^verbatim>\<open>chats\<close> returned is a parameter of the handler that reads.
\<close>

record store =
  tasks :: "(string \<times> obj) list"
  fault :: "string option"

datatype fs_query = AllTasks | TitleBetween string string

datatype store_call =
    FsAdd obj
  | FsUpdate string obj
  | FsGet fs_query
  | FsDelete string
  | RtSet string obj
  | RtOnce string

text \<open>\<^verbatim>\<open>collection.add(data)\<close>: a new document under the identifier the store assigns.\<close>

definition fs_add :: "string \<Rightarrow> obj \<Rightarrow> store \<Rightarrow> (js_error + string) \<times> store" where
  "fs_add newid data st =
     (case fault st of
        Some e \<Rightarrow> (Inl (StoreError e), st)
      | None \<Rightarrow> (Inr newid, st\<lparr>tasks := tasks st @ [(newid, data)]\<rparr>))"

text \<open>
  \<^verbatim>\<open>docRef.update(data)\<close>: overwrites the given fields of an existing document and leaves
  its other fields alone; rejects when the document does not exist.
\<close>

definition fs_update :: "string \<Rightarrow> obj \<Rightarrow> store \<Rightarrow> (js_error + unit) \<times> store" where
  "fs_update docid data st =
     (case fault st of
        Some e \<Rightarrow> (Inl (StoreError e), st)
      | None \<Rightarrow>
          (case map_of (tasks st) docid of
             None \<Rightarrow> (Inl (StoreError ''not-found''), st)
           | Some _ \<Rightarrow>
               (Inr (),
                st\<lparr>tasks :=
                     map (\<lambda>(i, d). if i = docid then (i, spread d data) else (i, d))
                       (tasks st)\<rparr>)))"

text \<open>\<^verbatim>\<open>docRef.delete()\<close>: succeeds whether or not the document exists.\<close>

definition fs_delete :: "string \<Rightarrow> store \<Rightarrow> (js_error + unit) \<times> store" where
  "fs_delete docid st =
     (case fault st of
        Some e \<Rightarrow> (Inl (StoreError e), st)
      | None \<Rightarrow> (Inr (), st\<lparr>tasks := filter (\<lambda>(i, d). i \<noteq> docid) (tasks st)\<rparr>))"

text \<open>
  A range filter on \<^verbatim>\<open>title\<close> matches the documents whose \<^verbatim>\<open>title\<close> is a string between
  the bounds, both included, in the order of the UTF-8 bytes.
\<close>

definition in_title_range :: "string \<Rightarrow> string \<Rightarrow> obj \<Rightarrow> bool" where
  "in_title_range lo hi d =
     (case js_get d ''title'' of JStr t \<Rightarrow> lo \<le> t \<and> t \<le> hi | _ \<Rightarrow> False)"

definition title_key :: "obj \<Rightarrow> string" where
  "title_key d = (case js_get d ''title'' of JStr t \<Rightarrow> t | _ \<Rightarrow> [])"

text \<open>
  \<^verbatim>\<open>query.get()\<close>: the whole collection comes in the order of the identifiers; a range
  query comes in the order of the filtered field, then of the identifiers.
\<close>

fun run_query :: "fs_query \<Rightarrow> (string \<times> obj) list \<Rightarrow> (string \<times> obj) list" where
  "run_query AllTasks ds = sort_key fst ds"
| "run_query (TitleBetween lo hi) ds =
     sort_key (\<lambda>(i, d). title_key d)
       (sort_key fst (filter (\<lambda>(i, d). in_title_range lo hi d) ds))"

definition fs_get :: "fs_query \<Rightarrow> store \<Rightarrow> js_error + (string \<times> obj) list" where
  "fs_get q st =
     (case fault st of
        Some e \<Rightarrow> Inl (StoreError e)
      | None \<Rightarrow> Inr (run_query q (tasks st)))"

text \<open>
  \<^verbatim>\<open>ref.set(value)\<close> on a child of \<^verbatim>\<open>chats\<close>: resolves, or rejects with the fault.
\<close>

definition rt_set :: "string \<Rightarrow> obj \<Rightarrow> store \<Rightarrow> js_error + unit" where
  "rt_set key v st =
     (case fault st of
        Some e \<Rightarrow> Inl (StoreError e)
      | None \<Rightarrow> Inr ())"

text \<open>
  The snapshot that a read of a path resolves to. The path holds nothing, or a plain
  value (a string, a number, a boolean), or children under their keys, each child an
  object; \<open>Kids\<close> lists them in the order in which the snapshot enumerates them, which
  for the query \<^verbatim>\<open>orderByChild('timestamp')\<close> is the store's order by timestamp.
\<close>

datatype rt_node = NoNode | Leaf jsval | Kids "(string \<times> obj) list"

text \<open>\<^verbatim>\<open>snapshot.exists()\<close>: the path holds a value or children.\<close>

definition node_exists :: "rt_node \<Rightarrow> bool" where
  "node_exists n \<longleftrightarrow> n \<noteq> NoNode"

text \<open>What \<^verbatim>\<open>snapshot.forEach\<close> visits, in order: the children, of which a plain value has none.\<close>

fun node_children :: "rt_node \<Rightarrow> (string \<times> obj) list" where
  "node_children NoNode = []"
| "node_children (Leaf v) = []"
| "node_children (Kids kids) = kids"

section \<open>Responses\<close>

datatype payload =
    Message string
  | MessageId string string
  | ServerError js_error
  | Tasks "obj list"
  | Messages "obj list"

record response =
  status_code :: nat
  sent :: payload

text \<open>
  What handling one request amounts to: the response, the calls made on the store
  clients in order, and the document store afterwards.
\<close>

record result =
  resp :: response
  calls :: "store_call list"
  after :: store

definition server_error :: "js_error \<Rightarrow> response" where
  "server_error e = \<lparr>status_code = 500, sent = ServerError e\<rparr>"

section \<open>The task handlers\<close>

subsection \<open>\<^verbatim>\<open>POST /to-do-list\<close>\<close>

text \<open>
  \<open>body\<close> is the parsed request body. \<^verbatim>\<open>new Date()\<close> is evaluated twice while the
  record is built: \<open>t1\<close> is what the clock reads at the first evaluation, \<open>t2\<close> at the
  second. \<open>newid\<close> is the identifier the store assigns to the document. The handler also
  prints the record on the console, on which no response and no store depends.
\<close>

definition post_todo :: "obj \<Rightarrow> int \<Rightarrow> int \<Rightarrow> string \<Rightarrow> store \<Rightarrow> result" where
  "post_todo body t1 t2 newid st =
     (let title = js_get body ''title'';
          description = js_get body ''description''
      in if \<not> truthy title \<or> \<not> truthy description
         then \<lparr>resp = \<lparr>status_code = 400,
                        sent = Message ''Title and description are required''\<rparr>,
               calls = [], after = st\<rparr>
         else
           let task = [(''title'', title),
                       (''description'', description),
                       (''status'', JBool False),
                       (''createdAt'', JTime t1 0),
                       (''updatedAt'', JTime t2 0)]
           in case fs_add newid task st of
                (Inl e, st') \<Rightarrow>
                  \<lparr>resp = server_error e, calls = [FsAdd task], after = st'\<rparr>
              | (Inr docid, st') \<Rightarrow>
                  \<lparr>resp = \<lparr>status_code = 201,
                            sent = MessageId ''Task added successfully'' docid\<rparr>,
                   calls = [FsAdd task], after = st'\<rparr>)"

subsection \<open>\<^verbatim>\<open>PUT /todo/:id\<close>\<close>

text \<open>\<open>docid\<close> is the route parameter, \<open>now\<close> what the clock reads at \<^verbatim>\<open>new Date()\<close>.\<close>

definition put_todo :: "string \<Rightarrow> obj \<Rightarrow> int \<Rightarrow> store \<Rightarrow> result" where
  "put_todo docid body now st =
     (let title = js_get body ''title'';
          description = js_get body ''description'';
          status = js_get body ''status''
      in if \<not> truthy title \<or> \<not> truthy description
         then \<lparr>resp = \<lparr>status_code = 400,
                        sent = Message ''Title and description are required''\<rparr>,
               calls = [], after = st\<rparr>
         else
           let updatedTask = [(''title'', title),
                              (''description'', description),
                              (''status'', js_or status (JBool False)),
                              (''updatedAt'', JTime now 0)]
           in case fs_update docid updatedTask st of
                (Inl e, st') \<Rightarrow>
                  \<lparr>resp = server_error e, calls = [FsUpdate docid updatedTask], after = st'\<rparr>
              | (Inr u, st') \<Rightarrow>
                  \<lparr>resp = \<lparr>status_code = 200, sent = Message ''Task updated successfully''\<rparr>,
                   calls = [FsUpdate docid updatedTask], after = st'\<rparr>)"

subsection \<open>\<^verbatim>\<open>GET /list\<close>\<close>

text \<open>
  A query parameter is absent (\<open>None\<close>) or a string: each parameter is taken to occur at
  most once in the query string, and without brackets. It is truthy when it is present
  and not the empty string.
\<close>

text \<open>The sentinel the handler appends to the search string: the code point U+F8FF, in UTF-8.\<close>

definition uf8ff :: string where
  "uf8ff = [CHR 0xEF, CHR 0xA3, CHR 0xBF]"

text \<open>The query the handler builds before it calls \<^verbatim>\<open>get()\<close>.\<close>

definition base_query :: "string option \<Rightarrow> fs_query" where
  "base_query search =
     (case search of
        None \<Rightarrow> AllTasks
      | Some s \<Rightarrow> if s \<noteq> [] then TitleBetween s (s @ uf8ff) else AllTasks)"

text \<open>\<^verbatim>\<open>{ id: doc.id, ...doc.data() }\<close>\<close>

definition as_task :: "string \<times> obj \<Rightarrow> obj" where
  "as_task doc = spread [(''id'', JStr (fst doc))] (snd doc)"

text \<open>
  The condition under which the loop pushes a task; the operands of \<^verbatim>\<open>||\<close> are
  evaluated from the left and only as far as needed.
\<close>

definition keeps :: "runtime \<Rightarrow> string option \<Rightarrow> obj \<Rightarrow> js_error + bool" where
  "keeps R search task =
     (case search of
        None \<Rightarrow> Inr True
      | Some s \<Rightarrow>
          if s = [] then Inr True
          else
            (case lower_of R (js_get task ''title'') of
               Inl e \<Rightarrow> Inl e
             | Inr t \<Rightarrow>
                 if str_includes t (toLowerCase R s) then Inr True
                 else
                   (case lower_of R (js_get task ''description'') of
                      Inl e \<Rightarrow> Inl e
                    | Inr d \<Rightarrow> Inr (str_includes d (toLowerCase R s)))))"

text \<open>The \<^verbatim>\<open>forEach\<close> loop over the snapshot.\<close>

fun collect :: "runtime \<Rightarrow> string option \<Rightarrow> (string \<times> obj) list \<Rightarrow> js_error + obj list" where
  "collect R search [] = Inr []"
| "collect R search (doc # docs) =
     (case keeps R search (as_task doc) of
        Inl e \<Rightarrow> Inl e
      | Inr keep \<Rightarrow>
          (case collect R search docs of
             Inl e \<Rightarrow> Inl e
           | Inr ts \<Rightarrow> Inr (if keep then as_task doc # ts else ts)))"

text \<open>The two comparators.\<close>

definition by_timestamp :: "string \<Rightarrow> obj \<Rightarrow> obj \<Rightarrow> js_error + rat option" where
  "by_timestamp ord a b =
     (case toDate (js_get a ''createdAt'') of
        Inl e \<Rightarrow> Inl e
      | Inr dateA \<Rightarrow>
          (case toDate (js_get b ''createdAt'') of
             Inl e \<Rightarrow> Inl e
           | Inr dateB \<Rightarrow>
               Inr (Some (of_int (if ord = ''asc'' then dateA - dateB else dateB - dateA)))))"

definition by_status :: "runtime \<Rightarrow> string \<Rightarrow> obj \<Rightarrow> obj \<Rightarrow> js_error + rat option" where
  "by_status R ord a b =
     (if strict_eq (js_get a ''status'') (js_get b ''status'') then Inr (Some 0)
      else Inr (if ord = ''asc''
                then js_minus R (js_get a ''status'') (js_get b ''status'')
                else js_minus R (js_get b ''status'') (js_get a ''status'')))"

definition sort_tasks :: "runtime \<Rightarrow> string option \<Rightarrow> string \<Rightarrow> obj list \<Rightarrow> js_error + obj list" where
  "sort_tasks R sortBy ord ts =
     (if sortBy = Some ''timestamp'' then js_sort (by_timestamp ord) ts
      else if sortBy = Some ''status'' then js_sort (by_status R ord) ts
      else Inr ts)"

text \<open>
  What the handler answers, given what \<^verbatim>\<open>query.get()\<close> returned or threw; \<open>fetched\<close>
  is the snapshot's documents in the snapshot's order.
\<close>

definition list_reply ::
  "runtime \<Rightarrow> string option \<Rightarrow> string option \<Rightarrow> string option \<Rightarrow>
   js_error + (string \<times> obj) list \<Rightarrow> response" where
  "list_reply R sortBy order_param search fetched =
     (let ord = (case order_param of None \<Rightarrow> ''desc'' | Some v \<Rightarrow> v)
      in case fetched of
           Inl e \<Rightarrow> server_error e
         | Inr docs \<Rightarrow>
             if docs = []
             then \<lparr>status_code = 404, sent = Message ''No tasks found''\<rparr>
             else
               (case collect R search docs of
                  Inl e \<Rightarrow> server_error e
                | Inr ts \<Rightarrow>
                    (case sort_tasks R sortBy ord ts of
                       Inl e \<Rightarrow> server_error e
                     | Inr sorted_tasks \<Rightarrow> \<lparr>status_code = 200, sent = Tasks sorted_tasks\<rparr>)))"

definition get_list ::
  "runtime \<Rightarrow> string option \<Rightarrow> string option \<Rightarrow> string option \<Rightarrow> store \<Rightarrow> result" where
  "get_list R sortBy order_param search st =
     (let query = base_query search
      in \<lparr>resp = list_reply R sortBy order_param search (fs_get query st),
          calls = [FsGet query],
          after = st\<rparr>)"

subsection \<open>\<^verbatim>\<open>DELETE /list/:id\<close>\<close>

definition delete_task :: "string \<Rightarrow> store \<Rightarrow> result" where
  "delete_task docid st =
     (case fs_delete docid st of
        (Inl e, st') \<Rightarrow> \<lparr>resp = server_error e, calls = [FsDelete docid], after = st'\<rparr>
      | (Inr u, st') \<Rightarrow>
          \<lparr>resp = \<lparr>status_code = 200, sent = Message ''Task deleted successfully''\<rparr>,
           calls = [FsDelete docid], after = st'\<rparr>)"

section \<open>The chat handlers\<close>

subsection \<open>\<^verbatim>\<open>POST /chat\<close>\<close>

text \<open>
  \<open>newkey\<close> is the key \<^verbatim>\<open>push()\<close> generates for the new child, \<open>now\<close> what
  \<^verbatim>\<open>Date.now()\<close> returns.
\<close>

definition post_chat :: "obj \<Rightarrow> string \<Rightarrow> int \<Rightarrow> store \<Rightarrow> result" where
  "post_chat body newkey now st =
     (let username = js_get body ''username'';
          message = js_get body ''message''
      in if \<not> truthy username \<or> \<not> truthy message
         then \<lparr>resp = \<lparr>status_code = 400,
                        sent = Message ''Username and message are required''\<rparr>,
               calls = [], after = st\<rparr>
         else
           let newMessage = [(''username'', username),
                             (''message'', message),
                             (''timestamp'', JNum (of_int now))]
           in case rt_set newkey newMessage st of
                Inl e \<Rightarrow>
                  \<lparr>resp = server_error e, calls = [RtSet newkey newMessage], after = st\<rparr>
              | Inr u \<Rightarrow>
                  \<lparr>resp = \<lparr>status_code = 201,
                            sent = MessageId ''Message sent successfully'' newkey\<rparr>,
                   calls = [RtSet newkey newMessage], after = st\<rparr>)"

subsection \<open>\<^verbatim>\<open>GET /chats\<close>\<close>

text \<open>\<^verbatim>\<open>{ id: childSnapshot.key, ...childSnapshot.val() }\<close>\<close>

definition as_message :: "string \<times> obj \<Rightarrow> obj" where
  "as_message child = spread [(''id'', JStr (fst child))] (snd child)"

text \<open>
  What the handler answers, given what
  \<^verbatim>\<open>chatsRef.orderByChild('timestamp').once('value')\<close> resolved to or rejected with.
\<close>

definition chats_reply :: "js_error + rt_node \<Rightarrow> response" where
  "chats_reply fetched =
     (case fetched of
        Inl e \<Rightarrow> server_error e
      | Inr snapshot \<Rightarrow>
          if \<not> node_exists snapshot
          then \<lparr>status_code = 404, sent = Message ''No chat messages found''\<rparr>
          else \<lparr>status_code = 200,
                sent = Messages (map as_message (node_children snapshot))\<rparr>)"

definition get_chats :: "js_error + rt_node \<Rightarrow> store \<Rightarrow> result" where
  "get_chats fetched st =
     \<lparr>resp = chats_reply fetched, calls = [RtOnce ''timestamp''], after = st\<rparr>"

section \<open>Notions used in the properties\<close>

text \<open>The required fields of a task record and of a chat message are present and truthy.\<close>

definition task_fields_present :: "obj \<Rightarrow> bool" where
  "task_fields_present d \<longleftrightarrow>
     truthy (js_get d ''title'') \<and> truthy (js_get d ''description'')"

definition chat_fields_present :: "obj \<Rightarrow> bool" where
  "chat_fields_present m \<longleftrightarrow>
     truthy (js_get m ''username'') \<and> truthy (js_get m ''message'')"

text \<open>A call that writes a record writes one with its required fields.\<close>

fun valid_write :: "store_call \<Rightarrow> bool" where
  "valid_write (FsAdd d) = task_fields_present d"
| "valid_write (FsUpdate i d) = task_fields_present d"
| "valid_write (RtSet k m) = chat_fields_present m"
| "valid_write (FsGet q) = True"
| "valid_write (FsDelete i) = True"
| "valid_write (RtOnce c) = True"

text \<open>Every persisted task has its required fields.\<close>

definition tasks_ok :: "store \<Rightarrow> bool" where
  "tasks_ok st \<longleftrightarrow> list_all (\<lambda>(i, d). task_fields_present d) (tasks st)"

text \<open>A non-empty string, which is what the data model takes a required field to be.\<close>

definition non_empty_text :: "jsval \<Rightarrow> bool" where
  "non_empty_text v = (case v of JStr s \<Rightarrow> s \<noteq> [] | _ \<Rightarrow> False)"

text \<open>
  A task has a title or a description that contains the search string, letter case
  disregarded: both sides are lower-cased before the substring test.
\<close>

definition contains_ci :: "runtime \<Rightarrow> jsval \<Rightarrow> string \<Rightarrow> bool" where
  "contains_ci R v s =
     (case v of
        JStr x \<Rightarrow> str_includes (toLowerCase R x) (toLowerCase R s)
      | _ \<Rightarrow> False)"

definition matches_search :: "runtime \<Rightarrow> string \<Rightarrow> obj \<Rightarrow> bool" where
  "matches_search R s t \<longleftrightarrow>
     contains_ci R (js_get t ''title'') s \<or> contains_ci R (js_get t ''description'') s"

text \<open>Both tasks carry a creation time, and the first was not created after the second.\<close>

definition created_le :: "obj \<Rightarrow> obj \<Rightarrow> bool" where
  "created_le a b =
     (case js_get a ''createdAt'' of
        JTime x m \<Rightarrow>
          (case js_get b ''createdAt'' of
             JTime y n \<Rightarrow> x < y \<or> (x = y \<and> m \<le> n)
           | _ \<Rightarrow> False)
      | _ \<Rightarrow> False)"

definition created_ge :: "obj \<Rightarrow> obj \<Rightarrow> bool" where
  "created_ge a b = created_le b a"

text \<open>
  The same with the creation times rounded to the millisecond: the \<^verbatim>\<open>Date\<close> of the
  first task's creation time is not after that of the second's.
\<close>

definition created_ms_le :: "obj \<Rightarrow> obj \<Rightarrow> bool" where
  "created_ms_le a b =
     (case js_get a ''createdAt'' of
        JTime x m \<Rightarrow>
          (case js_get b ''createdAt'' of
             JTime y n \<Rightarrow> date_ms x m \<le> date_ms y n
           | _ \<Rightarrow> False)
      | _ \<Rightarrow> False)"

definition created_ms_ge :: "obj \<Rightarrow> obj \<Rightarrow> bool" where
  "created_ms_ge a b = created_ms_le b a"

text \<open>The creation time of the task is a whole millisecond, as a \<^verbatim>\<open>Date\<close> is.\<close>

definition whole_ms :: "obj \<Rightarrow> bool" where
  "whole_ms t = (case js_get t ''createdAt'' of JTime x m \<Rightarrow> m = 0 | _ \<Rightarrow> False)"

text \<open>The tasks the loop keeps, when no test throws.\<close>

definition kept :: "runtime \<Rightarrow> string option \<Rightarrow> (string \<times> obj) list \<Rightarrow> obj list" where
  "kept R search docs =
     map as_task (filter (\<lambda>doc. keeps R search (as_task doc) = Inr True) docs)"

subsection \<open>A sample runtime\<close>

text \<open>
  A lower-casing that is exact on strings made of ASCII letters, digits, spaces and the
  Greek capital sigma (the bytes CE A3): an ASCII capital goes to its small letter; sigma
  goes to the final small sigma (CF 82) when it follows a letter and no letter follows
  it, and to the small sigma (CF 83) otherwise.
\<close>

definition ascii_lower :: "char \<Rightarrow> char" where
  "ascii_lower c =
     (case map_of (zip ''ABCDEFGHIJKLMNOPQRSTUVWXYZ'' ''abcdefghijklmnopqrstuvwxyz'') c of
        Some l \<Rightarrow> l
      | None \<Rightarrow> c)"

definition is_letter :: "char \<Rightarrow> bool" where
  "is_letter c \<longleftrightarrow>
     c \<in> set ''ABCDEFGHIJKLMNOPQRSTUVWXYZabcdefghijklmnopqrstuvwxyz''"

definition starts_with_letter :: "string \<Rightarrow> bool" where
  "starts_with_letter s = (case s of [] \<Rightarrow> False | c # cs \<Rightarrow> is_letter c \<or> c = CHR 0xCE)"

fun lower_from :: "bool \<Rightarrow> string \<Rightarrow> string" where
  "lower_from after_letter [] = []"
| "lower_from after_letter [c] = [ascii_lower c]"
| "lower_from after_letter (c1 # c2 # cs) =
     (if c1 = CHR 0xCE \<and> c2 = CHR 0xA3
      then (if after_letter \<and> \<not> starts_with_letter cs
            then [CHR 0xCF, CHR 0x82] else [CHR 0xCF, CHR 0x83]) @ lower_from True cs
      else ascii_lower c1 # lower_from (is_letter c1) (c2 # cs))"

text \<open>
  A numeric coercion that is exact on \<^verbatim>\<open>undefined\<close>, \<^verbatim>\<open>null\<close>, booleans and numbers;
  every other value is taken to \<^verbatim>\<open>NaN\<close>.
\<close>

fun number_sample :: "jsval \<Rightarrow> rat option" where
  "number_sample JNull = Some 0"
| "number_sample (JBool b) = Some (if b then 1 else 0)"
| "number_sample (JNum n) = Some n"
| "number_sample JUndefined = None"
| "number_sample (JStr s) = None"
| "number_sample (JTime ms ns) = None"
| "number_sample (JArr xs) = None"
| "number_sample (JObj fs) = None"

definition sample_runtime :: runtime where
  "sample_runtime = \<lparr>toLowerCase = lower_from False, toNumber = number_sample\<rparr>"

subsection \<open>Sample data\<close>

text \<open>The empty document store, and one with one task.\<close>

definition store0 :: store where
  "store0 = \<lparr>tasks = [], fault = None\<rparr>"

definition store1 :: store where
  "store1 =
     \<lparr>tasks = [(''doc1'', [(''title'', JStr ''A''), (''description'', JStr ''B''),
                          (''status'', JBool True), (''createdAt'', JTime 1000 0),
                          (''updatedAt'', JTime 1000 0)])],
      fault = None\<rparr>"

text \<open>Three tasks, created at 3000, 1000 and 2000.\<close>

definition store3 :: store where
  "store3 =
     \<lparr>tasks = [(''a'', [(''title'', JStr ''abcd''), (''description'', JStr ''first''),
                        (''status'', JBool False), (''createdAt'', JTime 3000 0),
                        (''updatedAt'', JTime 3000 0)]),
               (''b'', [(''title'', JStr ''zzz''), (''description'', JStr ''an ABC book''),
                        (''status'', JBool True), (''createdAt'', JTime 1000 0),
                        (''updatedAt'', JTime 1000 0)]),
               (''c'', [(''title'', JStr ''abc''), (''description'', JStr ''third''),
                        (''status'', JBool False), (''createdAt'', JTime 2000 0),
                        (''updatedAt'', JTime 2000 0)])],
      fault = None\<rparr>"

text \<open>One task whose title is A, capital sigma, B.\<close>

definition store_sigma :: store where
  "store_sigma =
     \<lparr>tasks = [(''s1'', [(''title'', JStr [CHR ''A'', CHR 0xCE, CHR 0xA3, CHR ''B'']),
                         (''description'', JStr ''x''),
                         (''status'', JBool False), (''createdAt'', JTime 1000 0),
                         (''updatedAt'', JTime 1000 0)])],
      fault = None\<rparr>"

text \<open>
  Two tasks created in the same millisecond, the one with the smaller identifier 0.4
  milliseconds after the other.
\<close>

definition store_submilli :: store where
  "store_submilli =
     \<lparr>tasks = [(''a'', [(''title'', JStr ''late''), (''description'', JStr ''x''),
                        (''status'', JBool False), (''createdAt'', JTime 1000 400000),
                        (''updatedAt'', JTime 1000 400000)]),
               (''b'', [(''title'', JStr ''early''), (''description'', JStr ''y''),
                        (''status'', JBool False), (''createdAt'', JTime 1000 0),
                        (''updatedAt'', JTime 1000 0)])],
      fault = None\<rparr>"

text \<open>A snapshot of two chat messages, as the store enumerates them by timestamp.\<close>

definition chats_two :: rt_node where
  "chats_two =
     Kids [(''k2'', [(''username'', JStr ''bob''), (''message'', JStr ''first''),
                     (''timestamp'', JNum 3)]),
           (''k1'', [(''username'', JStr ''ann''), (''message'', JStr ''second''),
                     (''timestamp'', JNum 5)])]"

text \<open>A snapshot of one chat message whose stored value has a property named \<^verbatim>\<open>id\<close>.\<close>

definition chats_with_id :: rt_node where
  "chats_with_id =
     Kids [(''k1'', [(''id'', JStr ''other''), (''username'', JStr ''ann''),
                     (''message'', JStr ''hello''), (''timestamp'', JNum 5)])]"

text \<open>A snapshot of a path that holds a plain value and no children.\<close>

definition chats_leaf :: rt_node where
  "chats_leaf = Leaf (JStr ''hello'')"

section \<open>Auxiliary facts\<close>

lemma js_get_js_set:
  "js_get (js_set ob k v) k' = (if k' = k then v else js_get ob k')"
  by (induction ob k v rule: js_set.induct) (auto simp: js_get_def)

lemma js_get_without:
  "k' \<noteq> k \<Longrightarrow> js_get (filter (\<lambda>(n, v). n \<noteq> k) ob) k' = js_get ob k'"
  by (induction ob) (auto simp: js_get_def)

lemma js_get_without_self:
  "js_get (filter (\<lambda>(n, v). n \<noteq> k) ob) k = JUndefined"
  by (induction ob) (auto simp: js_get_def)

lemma fs_update_field:
  "map (\<lambda>(i, d). (i, js_get d k)) (tasks (snd (fs_update docid data st)))
     = map (\<lambda>(i, d).
              (i, if i = docid \<and> fault st = None \<and> map_of (tasks st) docid \<noteq> None
                  then js_get (spread d data) k else js_get d k))
         (tasks st)"
  by (auto simp: fs_update_def split: option.splits)

lemma post_todo_valid: "list_all valid_write (calls (post_todo body t1 t2 newid st))"
  by (simp add: post_todo_def Let_def task_fields_present_def js_get_def
           split: prod.splits sum.splits)

lemma put_todo_valid: "list_all valid_write (calls (put_todo docid body now st))"
  by (simp add: put_todo_def Let_def task_fields_present_def js_get_def
           split: prod.splits sum.splits)

lemma post_chat_valid: "list_all valid_write (calls (post_chat body newkey now st))"
  by (simp add: post_chat_def Let_def chat_fields_present_def js_get_def
           split: prod.splits sum.splits)

lemma post_todo_400:
  "\<not> task_fields_present body \<Longrightarrow>
     status_code (resp (post_todo body t1 t2 newid st)) = 400
     \<and> calls (post_todo body t1 t2 newid st) = []"
  by (auto simp: post_todo_def Let_def task_fields_present_def)

lemma put_todo_400:
  "\<not> task_fields_present body \<Longrightarrow>
     status_code (resp (put_todo docid body now st)) = 400
     \<and> calls (put_todo docid body now st) = []"
  by (auto simp: put_todo_def Let_def task_fields_present_def)

lemma post_chat_400:
  "\<not> chat_fields_present body \<Longrightarrow>
     status_code (resp (post_chat body newkey now st)) = 400
     \<and> calls (post_chat body newkey now st) = []"
  by (auto simp: post_chat_def Let_def chat_fields_present_def)

lemma post_todo_tasks_ok: "tasks_ok st \<Longrightarrow> tasks_ok (after (post_todo body t1 t2 newid st))"
  by (auto simp: post_todo_def Let_def tasks_ok_def fs_add_def task_fields_present_def js_get_def
           split: option.splits)

lemma put_todo_tasks_ok: "tasks_ok st \<Longrightarrow> tasks_ok (after (put_todo docid body now st))"
  by (auto simp: put_todo_def Let_def tasks_ok_def fs_update_def task_fields_present_def
                 js_get_js_set list_all_iff
           split: option.splits if_splits)

subsection \<open>The loop and the sort of \<^verbatim>\<open>GET /list\<close>\<close>

lemma collect_kept: "collect R search docs = Inr ts \<Longrightarrow> ts = kept R search docs"
  by (induction docs arbitrary: ts) (auto simp: kept_def split: sum.splits if_splits)

lemma kept_without_search:
  "search = None \<or> search = Some [] \<Longrightarrow> kept R search docs = map as_task docs"
  by (auto simp: kept_def keeps_def)

lemma keeps_matches:
  "s \<noteq> [] \<Longrightarrow> keeps R (Some s) t = Inr True \<Longrightarrow> matches_search R s t"
  by (auto simp: keeps_def lower_of_def matches_search_def contains_ci_def
           split: jsval.splits sum.splits if_splits)

lemma js_insert_mset: "js_insert cmp x ys = Inr zs \<Longrightarrow> mset zs = add_mset x (mset ys)"
  by (induction ys arbitrary: zs) (auto split: sum.splits if_splits)

lemma js_sort_mset: "js_sort cmp xs = Inr ys \<Longrightarrow> mset ys = mset xs"
  by (induction xs arbitrary: ys) (auto split: sum.splits dest: js_insert_mset)

lemma js_insert_sorted:
  assumes trans: "\<And>a b c. P a b \<Longrightarrow> P b c \<Longrightarrow> P a c"
    and stay: "\<And>a b r. cmp a b = Inr r \<Longrightarrow> \<not> moves_behind r \<Longrightarrow> P a b"
    and move: "\<And>a b r. cmp a b = Inr r \<Longrightarrow> moves_behind r \<Longrightarrow> P b a"
  shows "sorted_wrt P ys \<Longrightarrow> js_insert cmp x ys = Inr zs \<Longrightarrow> sorted_wrt P zs"
proof (induction ys arbitrary: zs)
  case Nil
  then show ?case by auto
next
  case (Cons y ys)
  from Cons.prems(2) obtain r where r: "cmp x y = Inr r"
    by (auto split: sum.splits)
  show ?case
  proof (cases "moves_behind r")
    case True
    with Cons.prems(2) r obtain ws where ws: "js_insert cmp x ys = Inr ws" and zs: "zs = y # ws"
      by (auto split: sum.splits)
    from Cons.prems(1) have "sorted_wrt P ys" by simp
    then have sw: "sorted_wrt P ws" using ws by (rule Cons.IH)
    have "set ws = insert x (set ys)"
      using js_insert_mset [OF ws] by (metis set_mset_add_mset_insert set_mset_mset)
    moreover have "P y x" using r True by (rule move)
    moreover have "\<forall>z \<in> set ys. P y z" using Cons.prems(1) by simp
    ultimately show ?thesis using sw zs by simp
  next
    case False
    with Cons.prems(2) r have zs: "zs = x # y # ys" by simp
    have xy: "P x y" using r False by (rule stay)
    have "\<forall>z \<in> set ys. P x z" using Cons.prems(1) xy trans by auto
    with xy Cons.prems(1) zs show ?thesis by simp
  qed
qed

lemma js_sort_sorted:
  assumes trans: "\<And>a b c. P a b \<Longrightarrow> P b c \<Longrightarrow> P a c"
    and stay: "\<And>a b r. cmp a b = Inr r \<Longrightarrow> \<not> moves_behind r \<Longrightarrow> P a b"
    and move: "\<And>a b r. cmp a b = Inr r \<Longrightarrow> moves_behind r \<Longrightarrow> P b a"
  shows "js_sort cmp xs = Inr ys \<Longrightarrow> sorted_wrt P ys"
proof (induction xs arbitrary: ys)
  case Nil
  then show ?case by simp
next
  case (Cons x xs)
  from Cons.prems obtain ws where ws: "js_sort cmp xs = Inr ws" and ins: "js_insert cmp x ws = Inr ys"
    by (auto split: sum.splits)
  from ws have sw: "sorted_wrt P ws" by (rule Cons.IH)
  show ?case
  proof (rule js_insert_sorted [where P = P and cmp = cmp and ys = ws and x = x])
    show "P a c" if "P a b" "P b c" for a b c using that by (rule trans)
    show "P a b" if "cmp a b = Inr r" "\<not> moves_behind r" for a b r using that by (rule stay)
    show "P b a" if "cmp a b = Inr r" "moves_behind r" for a b r using that by (rule move)
    show "sorted_wrt P ws" by (rule sw)
    show "js_insert cmp x ws = Inr ys" by (rule ins)
  qed
qed

lemma created_ms_le_trans:
  "created_ms_le a b \<Longrightarrow> created_ms_le b c \<Longrightarrow> created_ms_le a c"
  by (auto simp: created_ms_le_def split: jsval.splits)

lemma created_ms_ge_trans:
  "created_ms_ge a b \<Longrightarrow> created_ms_ge b c \<Longrightarrow> created_ms_ge a c"
  unfolding created_ms_ge_def by (rule created_ms_le_trans)

lemma created_ms_le_whole:
  "created_ms_le a b \<Longrightarrow> whole_ms a \<Longrightarrow> whole_ms b \<Longrightarrow> created_le a b"
  by (auto simp: created_ms_le_def created_le_def whole_ms_def date_ms_def split: jsval.splits)

lemma created_ms_ge_whole:
  "created_ms_ge a b \<Longrightarrow> whole_ms a \<Longrightarrow> whole_ms b \<Longrightarrow> created_ge a b"
  unfolding created_ms_ge_def created_ge_def by (rule created_ms_le_whole)

lemma sorted_whole_le:
  "sorted_wrt created_ms_le ts \<Longrightarrow> list_all whole_ms ts \<Longrightarrow> sorted_wrt created_le ts"
  by (induction ts) (auto simp: list_all_iff intro: created_ms_le_whole)

lemma sorted_whole_ge:
  "sorted_wrt created_ms_ge ts \<Longrightarrow> list_all whole_ms ts \<Longrightarrow> sorted_wrt created_ge ts"
  by (induction ts) (auto simp: list_all_iff intro: created_ms_ge_whole)

lemma by_timestamp_asc_stay:
  "by_timestamp ''asc'' a b = Inr r \<Longrightarrow> \<not> moves_behind r \<Longrightarrow> created_ms_le a b"
  by (auto simp: by_timestamp_def toDate_def moves_behind_def created_ms_le_def
           split: jsval.splits)

lemma by_timestamp_asc_move:
  "by_timestamp ''asc'' a b = Inr r \<Longrightarrow> moves_behind r \<Longrightarrow> created_ms_le b a"
  by (auto simp: by_timestamp_def toDate_def moves_behind_def created_ms_le_def
           split: jsval.splits)

lemma by_timestamp_desc_stay:
  "ord \<noteq> ''asc'' \<Longrightarrow> by_timestamp ord a b = Inr r \<Longrightarrow> \<not> moves_behind r
     \<Longrightarrow> created_ms_ge a b"
  by (auto simp: by_timestamp_def toDate_def moves_behind_def created_ms_le_def
                 created_ms_ge_def
           split: jsval.splits)

lemma by_timestamp_desc_move:
  "ord \<noteq> ''asc'' \<Longrightarrow> by_timestamp ord a b = Inr r \<Longrightarrow> moves_behind r
     \<Longrightarrow> created_ms_ge b a"
  by (auto simp: by_timestamp_def toDate_def moves_behind_def created_ms_le_def
                 created_ms_ge_def
           split: jsval.splits)

lemma sort_by_timestamp_asc:
  assumes "js_sort (by_timestamp ''asc'') xs = Inr ys"
  shows "sorted_wrt created_ms_le ys"
proof (rule js_sort_sorted [where P = created_ms_le and cmp = "by_timestamp ''asc''" and xs = xs])
  show "created_ms_le a c" if "created_ms_le a b" "created_ms_le b c" for a b c
    using that by (rule created_ms_le_trans)
  show "created_ms_le a b" if "by_timestamp ''asc'' a b = Inr r" "\<not> moves_behind r" for a b r
    using that by (rule by_timestamp_asc_stay)
  show "created_ms_le b a" if "by_timestamp ''asc'' a b = Inr r" "moves_behind r" for a b r
    using that by (rule by_timestamp_asc_move)
  show "js_sort (by_timestamp ''asc'') xs = Inr ys" by (rule assms)
qed

lemma sort_by_timestamp_desc:
  assumes "ord \<noteq> ''asc''" and "js_sort (by_timestamp ord) xs = Inr ys"
  shows "sorted_wrt created_ms_ge ys"
proof (rule js_sort_sorted [where P = created_ms_ge and cmp = "by_timestamp ord" and xs = xs])
  show "created_ms_ge a c" if "created_ms_ge a b" "created_ms_ge b c" for a b c
    using that by (rule created_ms_ge_trans)
  show "created_ms_ge a b" if "by_timestamp ord a b = Inr r" "\<not> moves_behind r" for a b r
    using assms(1) that by (rule by_timestamp_desc_stay)
  show "created_ms_ge b a" if "by_timestamp ord a b = Inr r" "moves_behind r" for a b r
    using assms(1) that by (rule by_timestamp_desc_move)
  show "js_sort (by_timestamp ord) xs = Inr ys" by (rule assms(2))
qed

lemma sort_tasks_mset: "sort_tasks R sortBy ord cs = Inr ts \<Longrightarrow> mset ts = mset cs"
  by (auto simp: sort_tasks_def split: if_splits dest: js_sort_mset)

lemma list_reply_tasks:
  assumes "sent (list_reply R sortBy order_param search fetched) = Tasks ts"
  shows "\<exists>docs. fetched = Inr docs \<and> docs \<noteq> []
           \<and> collect R search docs = Inr (kept R search docs)
           \<and> sort_tasks R sortBy (case order_param of None \<Rightarrow> ''desc'' | Some v \<Rightarrow> v)
                 (kept R search docs) = Inr ts"
  using assms
  by (auto simp: list_reply_def Let_def server_error_def
           split: sum.splits if_splits dest: collect_kept)

lemma resp_get_list:
  "resp (get_list R sortBy order_param search st)
     = list_reply R sortBy order_param search (fs_get (base_query search) st)"
  by (simp add: get_list_def Let_def)

lemma set_run_query_range:
  "set (run_query (TitleBetween lo hi) ds) = {doc \<in> set ds. in_title_range lo hi (snd doc)}"
  by (auto simp: case_prod_beta)

lemma set_kept: "set (kept R search docs) \<subseteq> as_task ` set docs"
  by (auto simp: kept_def)

lemma kept_matches:
  "s \<noteq> [] \<Longrightarrow> t \<in> set (kept R (Some s) docs) \<Longrightarrow> matches_search R s t"
  by (auto simp: kept_def intro: keeps_matches)

subsection \<open>\<^verbatim>\<open>GET /chats\<close>\<close>

lemma js_get_spread_other:
  "k \<notin> fst ` set src \<Longrightarrow> js_get (spread base src) k = js_get base k"
  by (induction src arbitrary: base) (auto simp: js_get_js_set)

subsection \<open>What an update leaves in the store\<close>

lemma map_of_updated:
  "map_of (map (\<lambda>(i, d). if i = docid then (i, f d) else (i, d)) ds) docid
     = map_option f (map_of ds docid)"
  by (induction ds) auto

lemma fs_update_stored:
  assumes "fault st = None" and "map_of (tasks st) docid = Some d"
  shows "fst (fs_update docid data st) = Inr ()"
    and "map_of (tasks (snd (fs_update docid data st))) docid = Some (spread d data)"
  using assms by (simp_all add: fs_update_def map_of_updated)

section \<open>Properties of the handlers\<close>

text \<open>
  C1. An update request \<^verbatim>\<open>PUT /todo/:id\<close> whose body has a truthy title and description
  makes exactly one store call, the update of the addressed document with a record of
  exactly the four fields title, description, status and updatedAt: title and description
  are the body's, status is \<open>false\<close> when the body has none, updatedAt is the time the
  handler read. No document's createdAt is changed by the request.
\<close>

theorem put_todo_full_overwrite:
  assumes "truthy (js_get body ''title'')" and "truthy (js_get body ''description'')"
  shows "\<exists>written.
           calls (put_todo docid body now st) = [FsUpdate docid written]
         \<and> map fst written = [''title'', ''description'', ''status'', ''updatedAt'']
         \<and> js_get written ''title'' = js_get body ''title''
         \<and> js_get written ''description'' = js_get body ''description''
         \<and> (js_get body ''status'' = JUndefined \<longrightarrow> js_get written ''status'' = JBool False)
         \<and> js_get written ''updatedAt'' = JTime now 0
         \<and> map (\<lambda>(i, d). (i, js_get d ''createdAt''))
               (tasks (after (put_todo docid body now st)))
             = map (\<lambda>(i, d). (i, js_get d ''createdAt'')) (tasks st)"
proof -
  let ?w = "[(''title'', js_get body ''title''), (''description'', js_get body ''description''),
             (''status'', js_or (js_get body ''status'') (JBool False)),
             (''updatedAt'', JTime now 0)]"
  have c: "calls (put_todo docid body now st) = [FsUpdate docid ?w]"
    using assms by (simp add: put_todo_def Let_def split: prod.splits sum.splits)
  have a: "after (put_todo docid body now st) = snd (fs_update docid ?w st)"
    using assms by (simp add: put_todo_def Let_def split: prod.splits sum.splits)
  have s: "map (\<lambda>(i, d). (i, js_get d ''createdAt''))
               (tasks (after (put_todo docid body now st)))
             = map (\<lambda>(i, d). (i, js_get d ''createdAt'')) (tasks st)"
    unfolding a fs_update_field by (auto simp: js_get_js_set)
  have f: "js_get body ''status'' = JUndefined \<longrightarrow> js_get ?w ''status'' = JBool False"
    by (simp add: js_get_def js_or_def)
  show ?thesis
    apply (rule exI[of _ ?w])
    using c s f by (simp add: js_get_def)
qed

theorem put_todo_full_overwrite_witness:
  "truthy (js_get [(''title'', JStr ''A2''), (''description'', JStr ''B2'')] ''title'')
   \<and> truthy (js_get [(''title'', JStr ''A2''), (''description'', JStr ''B2'')] ''description'')
   \<and> calls (put_todo ''doc1'' [(''title'', JStr ''A2''), (''description'', JStr ''B2'')] 2000 store1)
       = [FsUpdate ''doc1'' [(''title'', JStr ''A2''), (''description'', JStr ''B2''),
                             (''status'', JBool False), (''updatedAt'', JTime 2000 0)]]
   \<and> tasks (after (put_todo ''doc1'' [(''title'', JStr ''A2''), (''description'', JStr ''B2'')]
                     2000 store1))
       = [(''doc1'', [(''title'', JStr ''A2''), (''description'', JStr ''B2''),
                      (''status'', JBool False), (''createdAt'', JTime 1000 0),
                      (''updatedAt'', JTime 2000 0)])]"
  using put_todo_full_overwrite
          [of "[(''title'', JStr ''A2''), (''description'', JStr ''B2'')]" "''doc1''" 2000 store1]
  by (simp add: js_get_def put_todo_def Let_def js_or_def fs_update_def store1_def)

text \<open>
  C2. A request \<^verbatim>\<open>GET /list\<close> is answered with 404 exactly when the store answers the
  base query, the one built before any filtering in memory, with no document at all. In
  particular, when the base query returns documents and the loop drops every one of
  them, the answer is 200 with an empty list of tasks.
\<close>

theorem get_list_404_iff_base_query_empty:
  "(status_code (resp (get_list R sortBy order_param search st)) = 404
      \<longleftrightarrow> fs_get (base_query search) st = Inr [])
   \<and> (\<forall>docs. fs_get (base_query search) st = Inr docs \<and> docs \<noteq> []
              \<and> collect R search docs = Inr []
        \<longrightarrow> resp (get_list R sortBy order_param search st)
              = \<lparr>status_code = 200, sent = Tasks []\<rparr>)"
proof (intro conjI allI impI)
  show "status_code (resp (get_list R sortBy order_param search st)) = 404
          \<longleftrightarrow> fs_get (base_query search) st = Inr []"
    unfolding resp_get_list
    by (simp add: list_reply_def Let_def server_error_def split: sum.splits)
next
  fix docs
  assume "fs_get (base_query search) st = Inr docs \<and> docs \<noteq> []
            \<and> collect R search docs = Inr []"
  then show "resp (get_list R sortBy order_param search st)
               = \<lparr>status_code = 200, sent = Tasks []\<rparr>"
    unfolding resp_get_list
    by (simp add: list_reply_def Let_def sort_tasks_def)
qed

theorem get_list_404_iff_base_query_empty_witness:
  "fs_get (base_query (Some [CHR ''A'', CHR 0xCE, CHR 0xA3])) store_sigma
     = Inr [(''s1'', [(''title'', JStr [CHR ''A'', CHR 0xCE, CHR 0xA3, CHR ''B'']),
                      (''description'', JStr ''x''),
                      (''status'', JBool False), (''createdAt'', JTime 1000 0),
                      (''updatedAt'', JTime 1000 0)])]
   \<and> collect sample_runtime (Some [CHR ''A'', CHR 0xCE, CHR 0xA3])
        [(''s1'', [(''title'', JStr [CHR ''A'', CHR 0xCE, CHR 0xA3, CHR ''B'']),
                   (''description'', JStr ''x''),
                   (''status'', JBool False), (''createdAt'', JTime 1000 0),
                   (''updatedAt'', JTime 1000 0)])] = Inr []
   \<and> resp (get_list sample_runtime None None (Some [CHR ''A'', CHR 0xCE, CHR 0xA3]) store_sigma)
       = \<lparr>status_code = 200, sent = Tasks []\<rparr>
   \<and> fs_get (base_query (Some ''ABC'')) store3 = Inr []
   \<and> status_code (resp (get_list sample_runtime None None (Some ''ABC'') store3)) = 404"
  using get_list_404_iff_base_query_empty
          [of sample_runtime None None "Some [CHR ''A'', CHR 0xCE, CHR 0xA3]" store_sigma]
        get_list_404_iff_base_query_empty
          [of sample_runtime None None "Some ''ABC''" store3]
  by (simp add: base_query_def fs_get_def store_sigma_def uf8ff_def in_title_range_def
                js_get_def title_key_def keeps_def as_task_def lower_of_def sample_runtime_def
                str_includes_def sublist_code ascii_lower_def is_letter_def
                starts_with_letter_def store3_def)

text \<open>
  C3. A create request \<^verbatim>\<open>POST /to-do-list\<close> with a non-empty title and description is
  to insert a record whose createdAt equals its updatedAt, both the time of handling. The
  handler evaluates \<^verbatim>\<open>new Date()\<close> once for each of the two fields: when the clock goes
  from 1000 to 1001 between the two evaluations, it answers 201 and the record it has
  inserted has createdAt 1000 and updatedAt 1001.
\<close>

theorem post_todo_timestamps_differ:
  "post_todo [(''title'', JStr ''A''), (''description'', JStr ''B'')] 1000 1001 ''doc1'' store0
     = \<lparr>resp = \<lparr>status_code = 201, sent = MessageId ''Task added successfully'' ''doc1''\<rparr>,
        calls = [FsAdd [(''title'', JStr ''A''), (''description'', JStr ''B''),
                        (''status'', JBool False), (''createdAt'', JTime 1000 0),
                        (''updatedAt'', JTime 1001 0)]],
        after = \<lparr>tasks = [(''doc1'', [(''title'', JStr ''A''), (''description'', JStr ''B''),
                                        (''status'', JBool False), (''createdAt'', JTime 1000 0),
                                        (''updatedAt'', JTime 1001 0)])],
                  fault = None\<rparr>\<rparr>
   \<and> JTime 1000 0 \<noteq> JTime 1001 0"
  by (simp add: js_get_def post_todo_def Let_def fs_add_def store0_def)

theorem post_todo_timestamps_differ_witness:
  "calls (post_todo [(''title'', JStr ''A''), (''description'', JStr ''B'')] 1000 1001 ''doc1''
            store0)
     = [FsAdd [(''title'', JStr ''A''), (''description'', JStr ''B''),
               (''status'', JBool False), (''createdAt'', JTime 1000 0),
               (''updatedAt'', JTime 1001 0)]]
   \<and> js_get [(''title'', JStr ''A''), (''description'', JStr ''B''),
              (''status'', JBool False), (''createdAt'', JTime 1000 0),
              (''updatedAt'', JTime 1001 0)] ''createdAt''
     \<noteq> js_get [(''title'', JStr ''A''), (''description'', JStr ''B''),
                (''status'', JBool False), (''createdAt'', JTime 1000 0),
                (''updatedAt'', JTime 1001 0)] ''updatedAt''"
  using post_todo_timestamps_differ by (simp add: js_get_def)

text \<open>
  C4. When the search parameter of \<^verbatim>\<open>GET /list\<close> is a non-empty string, every task of
  the list returned has a title or a description that contains the search string, letter
  case disregarded, whatever documents the store returned for the range query.
\<close>

theorem list_search_results_match:
  assumes "s \<noteq> []"
  shows "(sent (list_reply R sortBy order_param (Some s) fetched) = Tasks ts
            \<longrightarrow> (\<forall>t \<in> set ts. matches_search R s t))
       \<and> (sent (resp (get_list R sortBy order_param (Some s) st)) = Tasks ts
            \<longrightarrow> (\<forall>t \<in> set ts. matches_search R s t))"
proof -
  have m: "\<forall>t \<in> set ts. matches_search R s t"
    if "sent (list_reply R sortBy order_param (Some s) fetched') = Tasks ts" for fetched'
  proof -
    from list_reply_tasks [OF that] obtain docs ord where
      "sort_tasks R sortBy ord (kept R (Some s) docs) = Inr ts"
      by blast
    then have "mset ts = mset (kept R (Some s) docs)" by (rule sort_tasks_mset)
    then have "set ts = set (kept R (Some s) docs)" by (rule mset_eq_setD)
    then show ?thesis using assms kept_matches by blast
  qed
  show ?thesis using m by (simp add: resp_get_list)
qed

theorem list_search_results_match_witness:
  "''abc'' \<noteq> []
   \<and> sent (resp (get_list sample_runtime None None (Some ''abc'') store3))
       = Tasks [[(''id'', JStr ''c''), (''title'', JStr ''abc''), (''description'', JStr ''third''),
                 (''status'', JBool False), (''createdAt'', JTime 2000 0),
                 (''updatedAt'', JTime 2000 0)],
                [(''id'', JStr ''a''), (''title'', JStr ''abcd''), (''description'', JStr ''first''),
                 (''status'', JBool False), (''createdAt'', JTime 3000 0),
                 (''updatedAt'', JTime 3000 0)]]
   \<and> matches_search sample_runtime ''abc''
        [(''id'', JStr ''c''), (''title'', JStr ''abc''), (''description'', JStr ''third''),
         (''status'', JBool False), (''createdAt'', JTime 2000 0), (''updatedAt'', JTime 2000 0)]
   \<and> matches_search sample_runtime ''abc''
        [(''id'', JStr ''a''), (''title'', JStr ''abcd''), (''description'', JStr ''first''),
         (''status'', JBool False), (''createdAt'', JTime 3000 0), (''updatedAt'', JTime 3000 0)]"
  using list_search_results_match
          [of "''abc''" sample_runtime None None "fs_get (base_query (Some ''abc'')) store3"
              "[[(''id'', JStr ''c''), (''title'', JStr ''abc''), (''description'', JStr ''third''),
                 (''status'', JBool False), (''createdAt'', JTime 2000 0),
                 (''updatedAt'', JTime 2000 0)],
                [(''id'', JStr ''a''), (''title'', JStr ''abcd''), (''description'', JStr ''first''),
                 (''status'', JBool False), (''createdAt'', JTime 3000 0),
                 (''updatedAt'', JTime 3000 0)]]" store3]
  by (simp add: get_list_def list_reply_def base_query_def fs_get_def store3_def uf8ff_def
                in_title_range_def js_get_def title_key_def keeps_def as_task_def lower_of_def
                sample_runtime_def str_includes_def sublist_code ascii_lower_def is_letter_def
                starts_with_letter_def sort_tasks_def matches_search_def contains_ci_def)

text \<open>
  C5, as amended. Every record that the create and update handlers pass to the document
  store has a truthy title and description, and every message the chat handler passes to
  the realtime store has a truthy username and message: present and none of \<open>false\<close>,
  zero, the empty string and \<^verbatim>\<open>null\<close>. For a string, truthy means non-empty. A request
  that lacks a required field, or has a falsy one, is answered with 400 without any store
  call. Hence the two task handlers keep the document store in a state where every task
  has a truthy title and description.
\<close>

theorem writes_carry_required_fields:
  "list_all valid_write (calls (post_todo body t1 t2 newid st))
   \<and> list_all valid_write (calls (put_todo docid body now st))
   \<and> list_all valid_write (calls (post_chat body newkey now st))
   \<and> (\<not> task_fields_present body \<longrightarrow>
        status_code (resp (post_todo body t1 t2 newid st)) = 400
        \<and> calls (post_todo body t1 t2 newid st) = []
        \<and> status_code (resp (put_todo docid body now st)) = 400
        \<and> calls (put_todo docid body now st) = [])
   \<and> (\<not> chat_fields_present body \<longrightarrow>
        status_code (resp (post_chat body newkey now st)) = 400
        \<and> calls (post_chat body newkey now st) = [])
   \<and> (tasks_ok st \<longrightarrow>
        tasks_ok (after (post_todo body t1 t2 newid st))
        \<and> tasks_ok (after (put_todo docid body now st)))
   \<and> (\<forall>s. truthy (JStr s) = non_empty_text (JStr s))"
  by (intro conjI impI allI;
      simp add: post_todo_valid put_todo_valid post_chat_valid post_todo_400 put_todo_400
                post_chat_400 post_todo_tasks_ok put_todo_tasks_ok non_empty_text_def)

theorem writes_carry_required_fields_witness:
  "\<not> task_fields_present [(''title'', JStr ''A'')]
   \<and> \<not> chat_fields_present [(''title'', JStr ''A'')]
   \<and> tasks_ok store1
   \<and> status_code (resp (post_todo [(''title'', JStr ''A'')] 1000 1000 ''doc2'' store1)) = 400
   \<and> calls (post_todo [(''title'', JStr ''A'')] 1000 1000 ''doc2'' store1) = []
   \<and> status_code (resp (put_todo ''doc1'' [(''title'', JStr ''A'')] 2000 store1)) = 400
   \<and> calls (put_todo ''doc1'' [(''title'', JStr ''A'')] 2000 store1) = []
   \<and> status_code (resp (post_chat [(''title'', JStr ''A'')] ''k1'' 3000 store1)) = 400
   \<and> calls (post_chat [(''title'', JStr ''A'')] ''k1'' 3000 store1) = []
   \<and> tasks_ok (after (post_todo [(''title'', JStr ''A'')] 1000 1000 ''doc2'' store1))
   \<and> calls (post_chat [(''username'', JStr ''ann''), (''message'', JStr ''hello'')] ''k1'' 3000 store1)
       = [RtSet ''k1'' [(''username'', JStr ''ann''), (''message'', JStr ''hello''),
                        (''timestamp'', JNum 3000)]]
   \<and> tasks_ok (after (put_todo ''doc1'' [(''title'', JStr ''A2''), (''description'', JStr ''B2'')]
                         3000 store1))"
  using writes_carry_required_fields
          [where body = "[(''title'', JStr ''A'')]" and ?t1.0 = 1000 and ?t2.0 = 1000
             and newid = "''doc2''" and st = store1 and docid = "''doc1''" and now = 2000
             and newkey = "''k1''"]
        writes_carry_required_fields
          [where body = "[(''username'', JStr ''ann''), (''message'', JStr ''hello'')]"
             and ?t1.0 = 1000 and ?t2.0 = 1000
             and newid = "''doc2''" and st = store1 and docid = "''doc1''" and now = 3000
             and newkey = "''k1''"]
        writes_carry_required_fields
          [where body = "[(''title'', JStr ''A2''), (''description'', JStr ''B2'')]"
             and ?t1.0 = 1000 and ?t2.0 = 1000
             and newid = "''doc2''" and st = store1 and docid = "''doc1''" and now = 3000
             and newkey = "''k1''"]
  by (simp add: task_fields_present_def chat_fields_present_def tasks_ok_def store1_def
                js_get_def post_todo_def put_todo_def post_chat_def Let_def rt_set_def
                fs_update_def js_or_def)

text \<open>
  C5, as stated, fails: an empty array is truthy, so a create request whose title is the
  empty array passes the validation, and the record written has a title that is empty
  and is no string.
\<close>

theorem post_todo_empty_title_counterexample:
  "post_todo [(''title'', JArr []), (''description'', JStr ''B'')] 1000 1000 ''doc1'' store0
     = \<lparr>resp = \<lparr>status_code = 201, sent = MessageId ''Task added successfully'' ''doc1''\<rparr>,
        calls = [FsAdd [(''title'', JArr []), (''description'', JStr ''B''),
                        (''status'', JBool False), (''createdAt'', JTime 1000 0),
                        (''updatedAt'', JTime 1000 0)]],
        after = \<lparr>tasks = [(''doc1'', [(''title'', JArr []), (''description'', JStr ''B''),
                                        (''status'', JBool False), (''createdAt'', JTime 1000 0),
                                        (''updatedAt'', JTime 1000 0)])],
                  fault = None\<rparr>\<rparr>
   \<and> \<not> non_empty_text (JArr [])"
  by (simp add: js_get_def post_todo_def Let_def fs_add_def store0_def non_empty_text_def)

text \<open>
  C6. A create request \<^verbatim>\<open>POST /to-do-list\<close> whose title or description is missing or
  falsy is answered with 400; the handler makes no store call, so the store's add
  operation is not invoked, and the document store is as before.
\<close>

theorem post_todo_rejects_missing_fields:
  assumes "\<not> truthy (js_get body ''title'') \<or> \<not> truthy (js_get body ''description'')"
  shows "status_code (resp (post_todo body t1 t2 newid st)) = 400
       \<and> calls (post_todo body t1 t2 newid st) = []
       \<and> after (post_todo body t1 t2 newid st) = st"
  using assms by (auto simp: post_todo_def Let_def)

theorem post_todo_rejects_missing_fields_witness:
  "\<not> truthy (js_get [(''title'', JStr ''A''), (''description'', JStr [])] ''description'')
   \<and> status_code (resp (post_todo [(''title'', JStr ''A''), (''description'', JStr [])]
                          1000 1000 ''doc1'' store0)) = 400
   \<and> calls (post_todo [(''title'', JStr ''A''), (''description'', JStr [])]
               1000 1000 ''doc1'' store0) = []
   \<and> after (post_todo [(''title'', JStr ''A''), (''description'', JStr [])]
               1000 1000 ''doc1'' store0) = store0"
  using post_todo_rejects_missing_fields
          [of "[(''title'', JStr ''A''), (''description'', JStr [])]" 1000 1000 "''doc1''" store0]
  by (simp add: js_get_def)

text \<open>
  C7, as amended. The list of tasks that \<^verbatim>\<open>GET /list\<close> returns is a rearrangement of
  the tasks the loop kept. With \<^verbatim>\<open>sortBy=timestamp\<close> and \<^verbatim>\<open>order=asc\<close> the creation
  times, rounded to the millisecond as \<^verbatim>\<open>toDate()\<close> gives them to the comparator, never
  decrease; with \<^verbatim>\<open>order=desc\<close>, or no order parameter, they never increase. When the
  creation times of the tasks returned are whole milliseconds, the same holds of the
  creation times themselves. Without a sortBy parameter the list is the kept tasks in the
  order in which the store returned their documents.
\<close>

theorem get_list_order:
  assumes "sent (resp (get_list R sortBy order_param search st)) = Tasks ts"
  shows "(\<exists>docs. fs_get (base_query search) st = Inr docs
                 \<and> mset ts = mset (kept R search docs)
                 \<and> (sortBy = None \<longrightarrow> ts = kept R search docs)
                 \<and> (sortBy = None \<and> search = None \<longrightarrow> ts = map as_task docs))
       \<and> (sortBy = Some ''timestamp'' \<and> order_param = Some ''asc''
            \<longrightarrow> sorted_wrt created_ms_le ts
                \<and> (list_all whole_ms ts \<longrightarrow> sorted_wrt created_le ts))
       \<and> (sortBy = Some ''timestamp'' \<and> (order_param = None \<or> order_param = Some ''desc'')
            \<longrightarrow> sorted_wrt created_ms_ge ts
                \<and> (list_all whole_ms ts \<longrightarrow> sorted_wrt created_ge ts))"
proof -
  let ?ord = "case order_param of None \<Rightarrow> ''desc'' | Some v \<Rightarrow> v"
  from assms obtain docs where
    f: "fs_get (base_query search) st = Inr docs" and
    s: "sort_tasks R sortBy ?ord (kept R search docs) = Inr ts"
    unfolding resp_get_list by (blast dest: list_reply_tasks)
  have p: "mset ts = mset (kept R search docs)"
    using s by (rule sort_tasks_mset)
  have u: "sortBy = None \<longrightarrow> ts = kept R search docs"
    using s by (auto simp: sort_tasks_def)
  have n: "sortBy = None \<and> search = None \<longrightarrow> ts = map as_task docs"
    using u by (auto simp: kept_without_search)
  have a: "sortBy = Some ''timestamp'' \<and> order_param = Some ''asc''
             \<longrightarrow> sorted_wrt created_ms_le ts"
    using s by (auto simp: sort_tasks_def dest: sort_by_timestamp_asc)
  have d: "sortBy = Some ''timestamp'' \<and> (order_param = None \<or> order_param = Some ''desc'')
             \<longrightarrow> sorted_wrt created_ms_ge ts"
    using s sort_by_timestamp_desc [of "''desc''" "kept R search docs" ts]
    by (auto simp: sort_tasks_def)
  show ?thesis using f p u n a d sorted_whole_le sorted_whole_ge by blast
qed

theorem get_list_order_witness:
  "sent (resp (get_list sample_runtime (Some ''timestamp'') (Some ''asc'') None store3))
     = Tasks [[(''id'', JStr ''b''), (''title'', JStr ''zzz''),
               (''description'', JStr ''an ABC book''), (''status'', JBool True),
               (''createdAt'', JTime 1000 0), (''updatedAt'', JTime 1000 0)],
              [(''id'', JStr ''c''), (''title'', JStr ''abc''), (''description'', JStr ''third''),
               (''status'', JBool False), (''createdAt'', JTime 2000 0),
               (''updatedAt'', JTime 2000 0)],
              [(''id'', JStr ''a''), (''title'', JStr ''abcd''), (''description'', JStr ''first''),
               (''status'', JBool False), (''createdAt'', JTime 3000 0),
               (''updatedAt'', JTime 3000 0)]]
   \<and> list_all whole_ms
        [[(''id'', JStr ''b''), (''title'', JStr ''zzz''),
          (''description'', JStr ''an ABC book''), (''status'', JBool True),
          (''createdAt'', JTime 1000 0), (''updatedAt'', JTime 1000 0)],
         [(''id'', JStr ''c''), (''title'', JStr ''abc''), (''description'', JStr ''third''),
          (''status'', JBool False), (''createdAt'', JTime 2000 0),
          (''updatedAt'', JTime 2000 0)],
         [(''id'', JStr ''a''), (''title'', JStr ''abcd''), (''description'', JStr ''first''),
          (''status'', JBool False), (''createdAt'', JTime 3000 0),
          (''updatedAt'', JTime 3000 0)]]
   \<and> sorted_wrt created_le
        [[(''id'', JStr ''b''), (''title'', JStr ''zzz''),
          (''description'', JStr ''an ABC book''), (''status'', JBool True),
          (''createdAt'', JTime 1000 0), (''updatedAt'', JTime 1000 0)],
         [(''id'', JStr ''c''), (''title'', JStr ''abc''), (''description'', JStr ''third''),
          (''status'', JBool False), (''createdAt'', JTime 2000 0),
          (''updatedAt'', JTime 2000 0)],
         [(''id'', JStr ''a''), (''title'', JStr ''abcd''), (''description'', JStr ''first''),
          (''status'', JBool False), (''createdAt'', JTime 3000 0),
          (''updatedAt'', JTime 3000 0)]]
   \<and> sent (resp (get_list sample_runtime (Some ''timestamp'') None None store3))
     = Tasks [[(''id'', JStr ''a''), (''title'', JStr ''abcd''), (''description'', JStr ''first''),
               (''status'', JBool False), (''createdAt'', JTime 3000 0),
               (''updatedAt'', JTime 3000 0)],
              [(''id'', JStr ''c''), (''title'', JStr ''abc''), (''description'', JStr ''third''),
               (''status'', JBool False), (''createdAt'', JTime 2000 0),
               (''updatedAt'', JTime 2000 0)],
              [(''id'', JStr ''b''), (''title'', JStr ''zzz''),
               (''description'', JStr ''an ABC book''), (''status'', JBool True),
               (''createdAt'', JTime 1000 0), (''updatedAt'', JTime 1000 0)]]
   \<and> sent (resp (get_list sample_runtime None None None store3))
     = Tasks (map as_task (tasks store3))
   \<and> sorted_wrt created_ms_le
        [[(''id'', JStr ''a''), (''title'', JStr ''late''), (''description'', JStr ''x''),
          (''status'', JBool False), (''createdAt'', JTime 1000 400000),
          (''updatedAt'', JTime 1000 400000)],
         [(''id'', JStr ''b''), (''title'', JStr ''early''), (''description'', JStr ''y''),
          (''status'', JBool False), (''createdAt'', JTime 1000 0),
          (''updatedAt'', JTime 1000 0)]]"
  using get_list_order
          [of sample_runtime "Some ''timestamp''" "Some ''asc''" None store3
              "[[(''id'', JStr ''b''), (''title'', JStr ''zzz''),
                 (''description'', JStr ''an ABC book''), (''status'', JBool True),
                 (''createdAt'', JTime 1000 0), (''updatedAt'', JTime 1000 0)],
                [(''id'', JStr ''c''), (''title'', JStr ''abc''), (''description'', JStr ''third''),
                 (''status'', JBool False), (''createdAt'', JTime 2000 0),
                 (''updatedAt'', JTime 2000 0)],
                [(''id'', JStr ''a''), (''title'', JStr ''abcd''), (''description'', JStr ''first''),
                 (''status'', JBool False), (''createdAt'', JTime 3000 0),
                 (''updatedAt'', JTime 3000 0)]]"]
        get_list_order
          [of sample_runtime "Some ''timestamp''" "Some ''asc''" None store_submilli
              "[[(''id'', JStr ''a''), (''title'', JStr ''late''), (''description'', JStr ''x''),
                 (''status'', JBool False), (''createdAt'', JTime 1000 400000),
                 (''updatedAt'', JTime 1000 400000)],
                [(''id'', JStr ''b''), (''title'', JStr ''early''), (''description'', JStr ''y''),
                 (''status'', JBool False), (''createdAt'', JTime 1000 0),
                 (''updatedAt'', JTime 1000 0)]]"]
  by (simp add: get_list_def list_reply_def base_query_def fs_get_def store3_def
                store_submilli_def js_get_def keeps_def as_task_def sort_tasks_def
                by_timestamp_def toDate_def date_ms_def moves_behind_def created_le_def
                created_ms_le_def whole_ms_def)

text \<open>
  C7, as stated, fails: of two tasks created in the same millisecond the comparator makes
  a tie, whichever was created first, so the sort leaves them as the store returned
  them. Here the task created 0.4 milliseconds later comes first under
  \<^verbatim>\<open>order=asc\<close>.
\<close>

theorem get_list_order_counterexample:
  "sent (resp (get_list sample_runtime (Some ''timestamp'') (Some ''asc'') None store_submilli))
     = Tasks [[(''id'', JStr ''a''), (''title'', JStr ''late''), (''description'', JStr ''x''),
               (''status'', JBool False), (''createdAt'', JTime 1000 400000),
               (''updatedAt'', JTime 1000 400000)],
              [(''id'', JStr ''b''), (''title'', JStr ''early''), (''description'', JStr ''y''),
               (''status'', JBool False), (''createdAt'', JTime 1000 0),
               (''updatedAt'', JTime 1000 0)]]
   \<and> \<not> created_le
          [(''id'', JStr ''a''), (''title'', JStr ''late''), (''description'', JStr ''x''),
           (''status'', JBool False), (''createdAt'', JTime 1000 400000),
           (''updatedAt'', JTime 1000 400000)]
          [(''id'', JStr ''b''), (''title'', JStr ''early''), (''description'', JStr ''y''),
           (''status'', JBool False), (''createdAt'', JTime 1000 0),
           (''updatedAt'', JTime 1000 0)]"
  by (simp add: get_list_def list_reply_def base_query_def fs_get_def store_submilli_def
                js_get_def keeps_def as_task_def sort_tasks_def by_timestamp_def toDate_def
                date_ms_def moves_behind_def created_le_def)

text \<open>
  C8, as amended. A request \<^verbatim>\<open>GET /chats\<close> asks the store for the path in its order
  by timestamp. When the read succeeds, the answer is 404 exactly when the path holds
  nothing, neither a value nor children; otherwise it is 200 with one message for each
  child, in the order in which the snapshot enumerates the children. A message whose
  stored value has no property named \<^verbatim>\<open>id\<close> carries the key of its child as its
  \<^verbatim>\<open>id\<close>.
\<close>

theorem get_chats_reply:
  "calls (get_chats fetched st) = [RtOnce ''timestamp'']
   \<and> (status_code (resp (get_chats fetched st)) = 404 \<longleftrightarrow> fetched = Inr NoNode)
   \<and> (\<forall>snapshot. fetched = Inr snapshot \<and> snapshot \<noteq> NoNode \<longrightarrow>
        resp (get_chats fetched st)
          = \<lparr>status_code = 200,
             sent = Messages (map as_message (node_children snapshot))\<rparr>)
   \<and> (\<forall>child. ''id'' \<notin> fst ` set (snd child)
        \<longrightarrow> js_get (as_message child) ''id'' = JStr (fst child))"
proof (intro conjI allI impI)
  show "calls (get_chats fetched st) = [RtOnce ''timestamp'']"
    by (simp add: get_chats_def)
next
  show "status_code (resp (get_chats fetched st)) = 404 \<longleftrightarrow> fetched = Inr NoNode"
    by (simp add: get_chats_def chats_reply_def server_error_def node_exists_def
             split: sum.splits)
next
  fix snapshot
  assume "fetched = Inr snapshot \<and> snapshot \<noteq> NoNode"
  then show "resp (get_chats fetched st)
          = \<lparr>status_code = 200,
             sent = Messages (map as_message (node_children snapshot))\<rparr>"
    by (simp add: get_chats_def chats_reply_def node_exists_def)
next
  fix child :: "string \<times> obj"
  assume "''id'' \<notin> fst ` set (snd child)"
  then show "js_get (as_message child) ''id'' = JStr (fst child)"
    by (simp add: as_message_def js_get_spread_other) (simp add: js_get_def)
qed

theorem get_chats_reply_witness:
  "chats_two \<noteq> NoNode
   \<and> get_chats (Inr chats_two) store0
       = \<lparr>resp = \<lparr>status_code = 200,
                   sent = Messages [[(''id'', JStr ''k2''), (''username'', JStr ''bob''),
                                     (''message'', JStr ''first''), (''timestamp'', JNum 3)],
                                    [(''id'', JStr ''k1''), (''username'', JStr ''ann''),
                                     (''message'', JStr ''second''), (''timestamp'', JNum 5)]]\<rparr>,
          calls = [RtOnce ''timestamp''], after = store0\<rparr>
   \<and> ''id'' \<notin> fst ` set [(''username'', JStr ''bob''), (''message'', JStr ''first''),
                             (''timestamp'', JNum 3)]
   \<and> js_get (as_message (''k2'', [(''username'', JStr ''bob''), (''message'', JStr ''first''),
                                   (''timestamp'', JNum 3)])) ''id'' = JStr ''k2''
   \<and> status_code (resp (get_chats (Inr NoNode) store0)) = 404"
  using get_chats_reply [of "Inr chats_two" store0] get_chats_reply [of "Inr NoNode" store0]
  by (simp add: chats_two_def js_get_def as_message_def get_chats_def chats_reply_def
                node_exists_def)

text \<open>
  C8, as stated, fails. A path that holds a plain value has no children, and the answer
  is 200 with no messages, not 404. A child whose stored value has a property named
  \<^verbatim>\<open>id\<close> is returned with that property, not with its key. And a read that the store
  rejects is answered with 500, neither 404 nor 200.
\<close>

theorem get_chats_counterexample:
  "node_children chats_leaf = []
   \<and> resp (get_chats (Inr chats_leaf) store0) = \<lparr>status_code = 200, sent = Messages []\<rparr>
   \<and> status_code (resp (get_chats (Inl (StoreError ''unavailable'')) store0)) = 500
   \<and> node_children chats_with_id
       = [(''k1'', [(''id'', JStr ''other''), (''username'', JStr ''ann''),
                    (''message'', JStr ''hello''), (''timestamp'', JNum 5)])]
   \<and> resp (get_chats (Inr chats_with_id) store0)
       = \<lparr>status_code = 200,
          sent = Messages [[(''id'', JStr ''other''), (''username'', JStr ''ann''),
                            (''message'', JStr ''hello''), (''timestamp'', JNum 5)]]\<rparr>"
  by (simp add: chats_leaf_def chats_with_id_def js_get_def as_message_def get_chats_def
                chats_reply_def node_exists_def server_error_def)

text \<open>
  C9. When the search parameter of \<^verbatim>\<open>GET /list\<close> is a non-empty string, every task
  returned comes from a stored document whose title is a string within the range from
  the search string to the search string followed by U+F8FF. A document whose title lies
  outside the range is therefore never returned, whatever its description contains.
\<close>

theorem get_list_prefilter_restricts:
  assumes "s \<noteq> []"
    and "sent (resp (get_list R sortBy order_param (Some s) st)) = Tasks ts"
  shows "\<forall>t \<in> set ts.
           \<exists>doc \<in> set (tasks st). t = as_task doc \<and> in_title_range s (s @ uf8ff) (snd doc)"
proof -
  let ?ord = "case order_param of None \<Rightarrow> ''desc'' | Some v \<Rightarrow> v"
  from assms(2) obtain docs where
    f: "fs_get (base_query (Some s)) st = Inr docs" and
    k: "sort_tasks R sortBy ?ord (kept R (Some s) docs) = Inr ts"
    unfolding resp_get_list by (blast dest: list_reply_tasks)
  from f assms(1) have d: "docs = run_query (TitleBetween s (s @ uf8ff)) (tasks st)"
    by (auto simp: fs_get_def base_query_def split: option.splits)
  have "mset ts = mset (kept R (Some s) docs)" using k by (rule sort_tasks_mset)
  then have "set ts = set (kept R (Some s) docs)" by (rule mset_eq_setD)
  then have "set ts \<subseteq> as_task ` set docs" using set_kept by blast
  then show ?thesis unfolding d set_run_query_range by blast
qed

theorem get_list_prefilter_restricts_witness:
  "''abc'' \<noteq> []
   \<and> (''b'', [(''title'', JStr ''zzz''), (''description'', JStr ''an ABC book''),
               (''status'', JBool True), (''createdAt'', JTime 1000 0),
               (''updatedAt'', JTime 1000 0)]) \<in> set (tasks store3)
   \<and> contains_ci sample_runtime (JStr ''an ABC book'') ''abc''
   \<and> \<not> in_title_range ''abc'' (''abc'' @ uf8ff)
          [(''title'', JStr ''zzz''), (''description'', JStr ''an ABC book''),
           (''status'', JBool True), (''createdAt'', JTime 1000 0), (''updatedAt'', JTime 1000 0)]
   \<and> sent (resp (get_list sample_runtime None None (Some ''abc'') store3))
       = Tasks [[(''id'', JStr ''c''), (''title'', JStr ''abc''), (''description'', JStr ''third''),
                 (''status'', JBool False), (''createdAt'', JTime 2000 0),
                 (''updatedAt'', JTime 2000 0)],
                [(''id'', JStr ''a''), (''title'', JStr ''abcd''), (''description'', JStr ''first''),
                 (''status'', JBool False), (''createdAt'', JTime 3000 0),
                 (''updatedAt'', JTime 3000 0)]]"
  using get_list_prefilter_restricts
          [of "''abc''" sample_runtime None None store3
              "[[(''id'', JStr ''c''), (''title'', JStr ''abc''), (''description'', JStr ''third''),
                 (''status'', JBool False), (''createdAt'', JTime 2000 0),
                 (''updatedAt'', JTime 2000 0)],
                [(''id'', JStr ''a''), (''title'', JStr ''abcd''), (''description'', JStr ''first''),
                 (''status'', JBool False), (''createdAt'', JTime 3000 0),
                 (''updatedAt'', JTime 3000 0)]]"]
  by (simp add: get_list_def list_reply_def base_query_def fs_get_def store3_def uf8ff_def
                in_title_range_def js_get_def title_key_def keeps_def as_task_def lower_of_def
                sample_runtime_def str_includes_def sublist_code ascii_lower_def is_letter_def
                starts_with_letter_def sort_tasks_def contains_ci_def)

text \<open>
  C10. In an update request that passes validation, the status written is the value of
  \<^verbatim>\<open>status || false\<close>: a truthy status of the body, of whatever type, is written as it
  is; a falsy one is written as the boolean \<open>false\<close>, and the request then does exactly
  what the same request without a status field does. When the store accepts the update
  of an existing document, the answer is 200 and the status of the stored document is
  that value.
\<close>

theorem put_todo_status_is_or_false:
  assumes "truthy (js_get body ''title'')" and "truthy (js_get body ''description'')"
  shows "\<exists>written.
           calls (put_todo docid body now st) = [FsUpdate docid written]
         \<and> js_get written ''status'' = js_or (js_get body ''status'') (JBool False)
         \<and> (truthy (js_get body ''status'') \<longrightarrow>
              js_get written ''status'' = js_get body ''status'')
         \<and> (\<not> truthy (js_get body ''status'') \<longrightarrow>
              js_get written ''status'' = JBool False
              \<and> put_todo docid body now st
                  = put_todo docid (filter (\<lambda>(k, v). k \<noteq> ''status'') body) now st)
         \<and> (\<forall>d. fault st = None \<and> map_of (tasks st) docid = Some d \<longrightarrow>
              status_code (resp (put_todo docid body now st)) = 200
              \<and> (\<exists>d'. map_of (tasks (after (put_todo docid body now st))) docid = Some d'
                     \<and> js_get d' ''status'' = js_get written ''status''))"
proof -
  let ?w = "[(''title'', js_get body ''title''), (''description'', js_get body ''description''),
             (''status'', js_or (js_get body ''status'') (JBool False)),
             (''updatedAt'', JTime now 0)]"
  let ?b = "filter (\<lambda>(k, v). k \<noteq> ''status'') body"
  have c: "calls (put_todo docid body now st) = [FsUpdate docid ?w]"
    using assms by (simp add: put_todo_def Let_def split: prod.splits sum.splits)
  have w: "js_get ?w ''status'' = js_or (js_get body ''status'') (JBool False)"
    by (simp add: js_get_def)
  have t: "truthy (js_get body ''status'') \<longrightarrow> js_get ?w ''status'' = js_get body ''status''"
    by (simp add: js_get_def js_or_def)
  have f: "\<not> truthy (js_get body ''status'') \<longrightarrow> js_get ?w ''status'' = JBool False"
    by (simp add: js_get_def js_or_def)
  have g: "js_get ?b ''title'' = js_get body ''title''"
          "js_get ?b ''description'' = js_get body ''description''"
          "js_get ?b ''status'' = JUndefined"
    by (simp_all add: js_get_without js_get_without_self)
  have e: "\<not> truthy (js_get body ''status'') \<longrightarrow>
             put_todo docid body now st = put_todo docid ?b now st"
    by (auto simp: put_todo_def g js_or_def Let_def)
  have s: "status_code (resp (put_todo docid body now st)) = 200
           \<and> (\<exists>d'. map_of (tasks (after (put_todo docid body now st))) docid = Some d'
                  \<and> js_get d' ''status'' = js_get ?w ''status'')"
    if "fault st = None \<and> map_of (tasks st) docid = Some d" for d
  proof -
    from that have u: "fst (fs_update docid ?w st) = Inr ()"
      and m: "map_of (tasks (snd (fs_update docid ?w st))) docid = Some (spread d ?w)"
      by (simp_all add: fs_update_stored)
    have r: "status_code (resp (put_todo docid body now st)) = 200"
      using assms u by (auto simp: put_todo_def Let_def split: prod.splits sum.splits)
    have a: "after (put_todo docid body now st) = snd (fs_update docid ?w st)"
      using assms by (simp add: put_todo_def Let_def split: prod.splits sum.splits)
    have k: "js_get (spread d ?w) ''status'' = js_or (js_get body ''status'') (JBool False)"
      by (simp add: js_get_js_set)
    show ?thesis using r m k w unfolding a by simp
  qed
  show ?thesis
    apply (rule exI[of _ ?w])
    using c w t f e s by blast
qed

theorem put_todo_status_is_or_false_witness:
  "fault store1 = None
   \<and> map_of (tasks store1) ''doc1''
       = Some [(''title'', JStr ''A''), (''description'', JStr ''B''),
               (''status'', JBool True), (''createdAt'', JTime 1000 0),
               (''updatedAt'', JTime 1000 0)]
   \<and> put_todo ''doc1'' [(''title'', JStr ''A''), (''description'', JStr ''B''),
                        (''status'', JStr ''done'')] 2000 store1
       = \<lparr>resp = \<lparr>status_code = 200, sent = Message ''Task updated successfully''\<rparr>,
          calls = [FsUpdate ''doc1'' [(''title'', JStr ''A''), (''description'', JStr ''B''),
                                      (''status'', JStr ''done''), (''updatedAt'', JTime 2000 0)]],
          after = \<lparr>tasks = [(''doc1'', [(''title'', JStr ''A''), (''description'', JStr ''B''),
                                          (''status'', JStr ''done''),
                                          (''createdAt'', JTime 1000 0),
                                          (''updatedAt'', JTime 2000 0)])],
                    fault = None\<rparr>\<rparr>
   \<and> put_todo ''doc1'' [(''title'', JStr ''A''), (''description'', JStr ''B''),
                        (''status'', JNum 0)] 2000 store1
       = \<lparr>resp = \<lparr>status_code = 200, sent = Message ''Task updated successfully''\<rparr>,
          calls = [FsUpdate ''doc1'' [(''title'', JStr ''A''), (''description'', JStr ''B''),
                                      (''status'', JBool False), (''updatedAt'', JTime 2000 0)]],
          after = \<lparr>tasks = [(''doc1'', [(''title'', JStr ''A''), (''description'', JStr ''B''),
                                          (''status'', JBool False),
                                          (''createdAt'', JTime 1000 0),
                                          (''updatedAt'', JTime 2000 0)])],
                    fault = None\<rparr>\<rparr>
   \<and> put_todo ''doc1'' [(''title'', JStr ''A''), (''description'', JStr ''B''),
                        (''status'', JNum 0)] 2000 store1
     = put_todo ''doc1'' [(''title'', JStr ''A''), (''description'', JStr ''B'')] 2000 store1"
  using put_todo_status_is_or_false
          [of "[(''title'', JStr ''A''), (''description'', JStr ''B''),
                (''status'', JStr ''done'')]" "''doc1''" 2000 store1]
        put_todo_status_is_or_false
          [of "[(''title'', JStr ''A''), (''description'', JStr ''B''),
                (''status'', JNum 0)]" "''doc1''" 2000 store1]
  by (simp add: js_get_def put_todo_def Let_def js_or_def fs_update_def store1_def)

end
